theory Spec2Isabelle
  imports Main "HOL-Library.Word" "HOL-Library.Signed_Division"
begin

section \<open>Machine integers of \<^verbatim>\<open>paddle/framework/tensor_impl.h\<close>\<close>

text \<open>
  The header computes with \<^verbatim>\<open>int64_t\<close> (\<^verbatim>\<open>numel()\<close>, the extents of a \<^verbatim>\<open>DDim\<close>),
  \<^verbatim>\<open>size_t\<close> (\<^verbatim>\<open>sizeof(T)\<close>, \<^verbatim>\<open>holder_->size()\<close>, \<^verbatim>\<open>offset_\<close>) and \<^verbatim>\<open>int\<close> (slice indices,
  \<^verbatim>\<open>num_col_dims\<close>). All three are words here: \<open>+\<close> and \<open>*\<close> wrap around, \<open>\<le>\<close> and \<open><\<close>
  compare unsigned, \<open>\<le>s\<close> and \<open><s\<close> compare signed. A product of an \<^verbatim>\<open>int64_t\<close> and a
  \<^verbatim>\<open>size_t\<close> is a \<^verbatim>\<open>size_t\<close> in C++, on the same 64 bits, so no conversion is visible
  between the two 64-bit types.
\<close>

type_synonym int64_t = "64 word"
type_synonym size_t = "64 word"
type_synonym int32_t = "32 word"

text \<open>\<^verbatim>\<open>a / b\<close> on \<^verbatim>\<open>int64_t\<close>: the quotient truncated towards zero.\<close>

definition int64_div :: "int64_t \<Rightarrow> int64_t \<Rightarrow> int64_t" where
  "int64_div a b = word_of_int (sint a sdiv sint b)"

text \<open>The conversion of an \<^verbatim>\<open>int\<close> to a 64-bit type: sign extension.\<close>

definition widen :: "int32_t \<Rightarrow> int64_t" where
  "widen i = scast i"

section \<open>Collaborators declared outside the header\<close>

text \<open>
  Modelled from the spec: \<^verbatim>\<open>platform::Place\<close> is declared in \<^verbatim>\<open>paddle/platform/place.h\<close>,
  which is not among the sources. The spec gives it as the tagged union
  \<open>{Host, Device(index)}\<close> whose equality compares the tag and, for a device, the index.
\<close>

datatype Place = CPUPlace | GPUPlace nat

fun is_cpu_place :: "Place \<Rightarrow> bool" where
  "is_cpu_place CPUPlace = True"
| "is_cpu_place (GPUPlace d) = False"

fun is_gpu_place :: "Place \<Rightarrow> bool" where
  "is_gpu_place CPUPlace = False"
| "is_gpu_place (GPUPlace d) = True"

text \<open>
  Modelled from the spec: \<^verbatim>\<open>DDim\<close> and \<^verbatim>\<open>product\<close> are declared in
  \<^verbatim>\<open>paddle/framework/ddim.h\<close>, which is not among the sources. The spec gives a shape as an
  ordered sequence of extents and \<open>numel\<close> as the product of all extents; the header
  reads that product as an \<^verbatim>\<open>int64_t\<close>.
\<close>

type_synonym DDim = "int64_t list"

fun product :: "DDim \<Rightarrow> int64_t" where
  "product [] = 1"
| "product (d # ds) = d * product ds"

text \<open>
  A pointer is a block and a byte offset into it: the address that the allocator gives
  a block is not visible to the header, which only ever adds \<^verbatim>\<open>offset_\<close> to
  \<^verbatim>\<open>holder_->ptr()\<close>.
\<close>

datatype pointer = Pointer (block: nat) (byte_offset: size_t)

definition ptr_add :: "pointer \<Rightarrow> size_t \<Rightarrow> pointer" where
  "ptr_add p n = Pointer (block p) (byte_offset p + n)"

text \<open>
  Modelled from the spec: \<^verbatim>\<open>Placeholder\<close>, \<^verbatim>\<open>PlaceholderImpl\<close> and the fields of \<^verbatim>\<open>Tensor\<close>
  are declared in \<^verbatim>\<open>paddle/framework/tensor.h\<close>, which is not among the sources. The spec
  gives the buffer as a Place, a size in bytes and the allocation, and the tensor as a
  shape, a byte offset and a nullable shared reference to the buffer.
\<close>

record Placeholder =
  ptr_of :: pointer
  size_of :: size_t
  place_of :: Place

record Tensor =
  holder :: "Placeholder option"
  dims :: DDim
  offset :: size_t

text \<open>
  The heap is the sequence of the buffers constructed so far. Constructing a
  \<^verbatim>\<open>PlaceholderImpl\<close> takes the next block, of the requested size in the requested place,
  and appends it: an allocation is visible as a longer heap. The spec states no
  contract for an allocator that fails, so the construction always succeeds here.
  Releasing a buffer with its last reference is not modelled.
\<close>

type_synonym heap = "Placeholder list"

definition PlaceholderImpl :: "Place \<Rightarrow> size_t \<Rightarrow> heap \<Rightarrow> Placeholder \<times> heap" where
  "PlaceholderImpl place sz h =
     (let b = \<lparr>ptr_of = Pointer (length h) 0, size_of = sz, place_of = place\<rparr>
      in (b, h @ [b]))"

text \<open>
  Modelled from the spec: the default constructor of \<^verbatim>\<open>Tensor\<close> is in
  \<^verbatim>\<open>paddle/framework/tensor.h\<close>. The spec: a Tensor is created with an empty shape and no
  buffer.
\<close>

definition Tensor_new :: Tensor where
  "Tensor_new = \<lparr>holder = None, dims = [], offset = 0\<rparr>"

section \<open>Errors\<close>

text \<open>
  Every \<^verbatim>\<open>PADDLE_ENFORCE\<close> and \<^verbatim>\<open>PADDLE_THROW\<close> of the header is one error value, named
  after its condition. \<open>InvalidIndex\<close> is the read of \<^verbatim>\<open>dims_[0]\<close> on a shape without
  extents. \<open>NullDereference\<close> is \<^verbatim>\<open>holder_->\<close> on a null \<^verbatim>\<open>holder_\<close>: the header reaches
  it on no path (\<open>data_no_null_dereference\<close>, \<open>mutable_data_no_null_dereference\<close>,
  \<open>CopyFrom_no_null_dereference\<close>).
\<close>

datatype error =
    HoldsNoMemory
  | DimsOutOfBound
  | NumelNotPositive
  | GPUPlaceNotSupported
  | ContextNotOnGPU
  | ContextPlaceMismatch
  | SliceBeginNegative
  | SliceEndOutOfBound
  | SliceBeginNotBelowEnd
  | InvalidIndex
  | NullDereference

section \<open>Typed access\<close>

text \<open>
  The template parameter \<^verbatim>\<open>T\<close> enters every function only through \<^verbatim>\<open>sizeof(T)\<close>, the
  argument \<open>szT\<close>.
\<close>

definition numel :: "Tensor \<Rightarrow> int64_t" where
  "numel t = product (dims t)"

definition check_memory_size :: "size_t \<Rightarrow> Tensor \<Rightarrow> error + unit" where
  "check_memory_size szT t =
     (case holder t of
        None \<Rightarrow> Inl HoldsNoMemory
      | Some h \<Rightarrow>
          if size_of h \<ge> numel t * szT + offset t then Inr () else Inl DimsOutOfBound)"

text \<open>
  \<^verbatim>\<open>reinterpret_cast<T*>(reinterpret_cast<uintptr_t>(holder_->ptr()) + offset_)\<close>, the last
  line of \<^verbatim>\<open>data\<close> and of \<^verbatim>\<open>mutable_data\<close>.
\<close>

definition holder_ptr_at_offset :: "Tensor \<Rightarrow> error + pointer" where
  "holder_ptr_at_offset t =
     (case holder t of
        None \<Rightarrow> Inl NullDereference
      | Some b \<Rightarrow> Inr (ptr_add (ptr_of b) (offset t)))"

definition data :: "size_t \<Rightarrow> Tensor \<Rightarrow> error + pointer" where
  "data szT t =
     (case check_memory_size szT t of
        Inl e \<Rightarrow> Inl e
      | Inr u \<Rightarrow> holder_ptr_at_offset t)"

definition Resize :: "Tensor \<Rightarrow> DDim \<Rightarrow> Tensor" where
  "Resize t ds = t\<lparr>dims := ds\<rparr>"

section \<open>Lazy allocation\<close>

text \<open>
  A method that changes the tensor takes the tensor and the heap and returns its result
  or its error together with the tensor and the heap it leaves behind: an exception
  leaves the assignments made before it in place. The flag \<open>cuda\<close> is
  \<^verbatim>\<open>PADDLE_WITH_CUDA\<close>: the header is two programs, one for each value.
\<close>

definition mutable_data ::
  "bool \<Rightarrow> size_t \<Rightarrow> Place \<Rightarrow> Tensor \<Rightarrow> heap \<Rightarrow> (error + pointer) \<times> Tensor \<times> heap" where
  "mutable_data cuda szT place t h =
     (if \<not> (0 <s numel t) then (Inl NumelNotPositive, t, h)
      else
        let sz = numel t * szT in
        if (case holder t of
              None \<Rightarrow> True
            | Some b \<Rightarrow> \<not> (place_of b = place) \<or> size_of b < sz + offset t)
        then
          if is_cpu_place place then
            let (b, h') = PlaceholderImpl place sz h;
                t' = t\<lparr>holder := Some b, offset := 0\<rparr>
            in (holder_ptr_at_offset t', t', h')
          else if is_gpu_place place then
            if cuda then
              let (b, h') = PlaceholderImpl place sz h;
                  t' = t\<lparr>holder := Some b, offset := 0\<rparr>
              in (holder_ptr_at_offset t', t', h')
            else (Inl GPUPlaceNotSupported, t, h)
          else
            let t' = t\<lparr>offset := 0\<rparr> in (holder_ptr_at_offset t', t', h)
        else (holder_ptr_at_offset t, t, h))"

text \<open>The overload \<^verbatim>\<open>mutable_data(DDim dims, platform::Place place)\<close>.\<close>

definition mutable_data_dims ::
  "bool \<Rightarrow> size_t \<Rightarrow> DDim \<Rightarrow> Place \<Rightarrow> Tensor \<Rightarrow> heap \<Rightarrow> (error + pointer) \<times> Tensor \<times> heap" where
  "mutable_data_dims cuda szT ds place t h = mutable_data cuda szT place (Resize t ds) h"

section \<open>Sharing, slicing, reshaping\<close>

text \<open>
  \<^verbatim>\<open>*this = src\<close> assigns the three fields. The reference that \<^verbatim>\<open>ShareDataWith\<close> and
  \<^verbatim>\<open>Resize\<close> return is the receiver: the tensor that the model returns.
\<close>

definition ShareDataWith :: "size_t \<Rightarrow> Tensor \<Rightarrow> Tensor \<Rightarrow> (error + unit) \<times> Tensor" where
  "ShareDataWith szT this src =
     (case check_memory_size szT src of
        Inl e \<Rightarrow> (Inl e, this)
      | Inr u \<Rightarrow> (Inr (), this\<lparr>holder := holder src, dims := dims src, offset := offset src\<rparr>))"

definition Slice :: "size_t \<Rightarrow> Tensor \<Rightarrow> int32_t \<Rightarrow> int32_t \<Rightarrow> error + Tensor" where
  "Slice szT t begin_idx end_idx =
     (case check_memory_size szT t of
        Inl e \<Rightarrow> Inl e
      | Inr u \<Rightarrow>
          if \<not> (0 \<le>s begin_idx) then Inl SliceBeginNegative
          else
            (case dims t of
               [] \<Rightarrow> Inl InvalidIndex
             | d0 # ds \<Rightarrow>
                 if \<not> (widen end_idx \<le>s d0) then Inl SliceEndOutOfBound
                 else if \<not> (begin_idx <s end_idx) then Inl SliceBeginNotBelowEnd
                 else if d0 = 1 then Inr t
                 else
                   let base = int64_div (numel t) d0;
                       dst = Tensor_new\<lparr>holder := holder t\<rparr>;
                       dst_dims = widen (end_idx - begin_idx) # ds;
                       dst = Resize dst dst_dims
                   in Inr (dst\<lparr>offset := offset t + widen begin_idx * base * szT\<rparr>)))"

text \<open>
  Modelled from the spec: \<^verbatim>\<open>flatten_to_2d\<close> is declared in \<^verbatim>\<open>paddle/framework/ddim.h\<close>,
  which is not among the sources. The spec: the shape collapsed to exactly two extents,
  the product of the leading \<open>num_col_dims\<close> extents and the product of the remaining
  extents.
\<close>

definition flatten_to_2d :: "DDim \<Rightarrow> int32_t \<Rightarrow> DDim" where
  "flatten_to_2d src num_col_dims =
     [product (take (nat (sint num_col_dims)) src),
      product (drop (nat (sint num_col_dims)) src)]"

definition ReshapeToMatrix :: "size_t \<Rightarrow> Tensor \<Rightarrow> int32_t \<Rightarrow> error + Tensor" where
  "ReshapeToMatrix szT src num_col_dims =
     (case ShareDataWith szT Tensor_new src of
        (Inl e, res) \<Rightarrow> Inl e
      | (Inr u, res) \<Rightarrow> Inr (Resize res (flatten_to_2d (dims src) num_col_dims)))"

section \<open>Copy between places\<close>

text \<open>
  Modelled from the spec: \<^verbatim>\<open>platform::DeviceContext\<close> and \<^verbatim>\<open>memory::Copy\<close> are declared
  in \<^verbatim>\<open>paddle/platform/device_context.h\<close> and \<^verbatim>\<open>paddle/memory/memcpy.h\<close>, which are not
  among the sources. The spec: a context exposes the Place it executes on and, for an
  accelerator, an ordering token; the copy primitive is
  \<open>copy(dst_place, dst_ptr, src_place, src_ptr, size[, stream])\<close>. The bytes of a buffer
  are not modelled: \<^verbatim>\<open>CopyFrom\<close> returns the call of the primitive that it issues, if any.
\<close>

record DeviceContext =
  GetPlace :: Place
  stream :: nat

datatype memcpy = Copy Place pointer Place pointer size_t "nat option"

text \<open>
  The receiver and \<open>src\<close> are two objects. After \<^verbatim>\<open>is_gpu_place(ctx_place)\<close> both operands
  of \<^verbatim>\<open>PADDLE_ENFORCE_EQ\<close> are GPU places, so that equality of the places is equality of
  the devices.
\<close>

definition CopyFrom ::
  "bool \<Rightarrow> size_t \<Rightarrow> Tensor \<Rightarrow> Place \<Rightarrow> DeviceContext \<Rightarrow> Tensor \<Rightarrow> heap
     \<Rightarrow> (error + memcpy option) \<times> Tensor \<times> heap" where
  "CopyFrom cuda szT src dst_place ctx this h =
     (case check_memory_size szT src of
        Inl e \<Rightarrow> (Inl e, this, h)
      | Inr u \<Rightarrow>
          let this1 = Resize this (dims src) in
          (case holder src of
             None \<Rightarrow> (Inl NullDereference, this1, h)
           | Some sb \<Rightarrow>
               let src_place = place_of sb in
               (case data szT src of
                  Inl e \<Rightarrow> (Inl e, this1, h)
                | Inr src_ptr \<Rightarrow>
                    (case mutable_data cuda szT dst_place this1 h of
                       (Inl e, this2, h2) \<Rightarrow> (Inl e, this2, h2)
                     | (Inr dst_ptr, this2, h2) \<Rightarrow>
                         let sz = numel src * szT;
                             ctx_place = GetPlace ctx
                         in
                         if is_cpu_place src_place \<and> is_cpu_place dst_place then
                           (Inr (Some (Copy dst_place dst_ptr src_place src_ptr sz None)),
                            this2, h2)
                         else if cuda \<and> is_gpu_place src_place \<and> is_cpu_place dst_place then
                           if \<not> is_gpu_place ctx_place then (Inl ContextNotOnGPU, this2, h2)
                           else if \<not> (src_place = ctx_place) then
                             (Inl ContextPlaceMismatch, this2, h2)
                           else
                             (Inr (Some (Copy dst_place dst_ptr src_place src_ptr sz
                                           (Some (stream ctx)))), this2, h2)
                         else if cuda \<and> is_cpu_place src_place \<and> is_gpu_place dst_place then
                           if \<not> is_gpu_place ctx_place then (Inl ContextNotOnGPU, this2, h2)
                           else if \<not> (dst_place = ctx_place) then
                             (Inl ContextPlaceMismatch, this2, h2)
                           else
                             (Inr (Some (Copy dst_place dst_ptr src_place src_ptr sz
                                           (Some (stream ctx)))), this2, h2)
                         else if cuda \<and> is_gpu_place src_place \<and> is_gpu_place dst_place then
                           if \<not> is_gpu_place ctx_place then (Inl ContextNotOnGPU, this2, h2)
                           else if \<not> (src_place = ctx_place) then
                             (Inl ContextPlaceMismatch, this2, h2)
                           else
                             (Inr (Some (Copy dst_place dst_ptr src_place src_ptr sz
                                           (Some (stream ctx)))), this2, h2)
                         else (Inr None, this2, h2)))))"

section \<open>The byte counts of the spec\<close>

text \<open>
  The spec counts bytes: \<open>required = numel(shape) * sizeof(T)\<close>, and a buffer is reused iff
  it is non-null, its Place equals \<open>place\<close>, and \<open>buffer.size \<ge> required + offset\<close>. These
  two definitions follow those words over the integers, where nothing wraps: \<open>numel\<close> is
  the value that \<^verbatim>\<open>numel()\<close> returns, an \<^verbatim>\<open>int64_t\<close> read signed; \<^verbatim>\<open>sizeof(T)\<close>, the offset
  and the size of a buffer are \<^verbatim>\<open>size_t\<close>, read unsigned. The comparisons of the source
  are the ones inside \<open>check_memory_size\<close> and \<open>mutable_data\<close>, on 64-bit words.
\<close>

definition spec_required :: "size_t \<Rightarrow> DDim \<Rightarrow> int" where
  "spec_required szT ds = sint (product ds) * uint szT"

definition spec_reuse :: "size_t \<Rightarrow> Place \<Rightarrow> Tensor \<Rightarrow> bool" where
  "spec_reuse szT place t =
     (case holder t of
        None \<Rightarrow> False
      | Some b \<Rightarrow> place_of b = place
          \<and> uint (size_of b) \<ge> spec_required szT (dims t) + uint (offset t))"

section \<open>Lemmas\<close>

lemma product_zero: "0 \<in> set ds \<Longrightarrow> product ds = 0"
  by (induction ds) auto

lemma product_append: "product (xs @ ys) = product xs * product ys"
  by (induction xs) (simp_all add: mult.assoc)

lemma data_no_null_dereference: "data szT t \<noteq> Inl NullDereference"
  by (simp add: data_def check_memory_size_def holder_ptr_at_offset_def split: option.split)

lemma mutable_data_numel: 
  "\<not> 0 <s numel t \<Longrightarrow> mutable_data cuda szT place t h = (Inl NumelNotPositive, t, h)"
  by (simp add: mutable_data_def)

lemma mutable_data_keep:
  assumes "0 <s numel t" and "holder t = Some b" and "place_of b = place"
    and "numel t * szT + offset t \<le> size_of b"
  shows "mutable_data cuda szT place t h = (Inr (ptr_add (ptr_of b) (offset t)), t, h)"
proof -
  from assms(4) have "\<not> size_of b < numel t * szT + offset t"
    by (simp add: not_less)
  with assms(1-3) show ?thesis
    by (simp add: mutable_data_def holder_ptr_at_offset_def Let_def)
qed

lemma mutable_data_fresh:
  assumes "0 <s numel t"
    and "\<not> (\<exists>b. holder t = Some b \<and> place_of b = place \<and> numel t * szT + offset t \<le> size_of b)"
    and "is_cpu_place place \<or> cuda"
  shows "mutable_data cuda szT place t h =
           (Inr (Pointer (length h) 0),
            t\<lparr>holder := Some \<lparr>ptr_of = Pointer (length h) 0, size_of = numel t * szT,
                                place_of = place\<rparr>,
              offset := 0\<rparr>,
            h @ [\<lparr>ptr_of = Pointer (length h) 0, size_of = numel t * szT, place_of = place\<rparr>])"
  using assms
  by (cases place; cases "holder t")
     (auto simp add: mutable_data_def holder_ptr_at_offset_def Let_def PlaceholderImpl_def
        ptr_add_def not_le)

lemma mutable_data_refused:
  assumes "0 <s numel t"
    and "\<not> (\<exists>b. holder t = Some b \<and> place_of b = place \<and> numel t * szT + offset t \<le> size_of b)"
    and "is_gpu_place place" and "\<not> cuda"
  shows "mutable_data cuda szT place t h = (Inl GPUPlaceNotSupported, t, h)"
  using assms
  by (cases place; cases "holder t")
     (auto simp add: mutable_data_def Let_def not_le)

lemma mutable_data_no_null_dereference:
  "fst (mutable_data cuda szT place t h) \<noteq> Inl NullDereference"
  by (cases place; cases "holder t")
     (auto simp add: mutable_data_def holder_ptr_at_offset_def Let_def PlaceholderImpl_def)

lemma data_Inr_iff:
  "data szT t = Inr p \<longleftrightarrow>
     (\<exists>b. holder t = Some b \<and> numel t * szT + offset t \<le> size_of b
          \<and> p = ptr_add (ptr_of b) (offset t))"
  by (auto simp add: data_def check_memory_size_def holder_ptr_at_offset_def
        split: option.splits if_splits)

lemma data_Inr_check: "data szT t = Inr p \<Longrightarrow> check_memory_size szT t = Inr ()"
  by (auto simp add: data_def split: sum.splits)

lemma data_Inl_check: "data szT t = Inl e \<Longrightarrow> check_memory_size szT t = Inl e"
  by (auto simp add: data_def holder_ptr_at_offset_def check_memory_size_def
        split: sum.splits option.splits if_splits)

lemma sint_widen: "sint (widen i) = sint i"
  by (simp add: widen_def sint_up_scast is_up)

lemma sint_diff_in_range:
  fixes b e :: int32_t
  assumes "0 \<le>s b" and "b <s e"
  shows "sint (e - b) = sint e - sint b"
proof -
  have "0 \<le> sint b" using assms(1) by (simp add: word_sle_eq)
  moreover have "sint b < sint e" using assms(2) by (simp add: word_sless_alt)
  moreover have "sint e < 2 ^ 31" using sint_lt [of e] by simp
  ultimately have "- (2 ^ 31) \<le> sint e - sint b" and "sint e - sint b < 2 ^ 31"
    by simp_all
  then have "signed_take_bit 31 (sint e - sint b) = sint e - sint b"
    by (rule signed_take_bit_int_eq_self)
  then show ?thesis by (simp add: sint_word_ariths)
qed

lemma single_row_bounds:
  fixes b e :: int32_t
  assumes "0 \<le>s b" and "widen e \<le>s 1" and "b <s e"
  shows "b = 0 \<and> e = 1"
proof -
  have "0 \<le> sint b" using assms(1) by (simp add: word_sle_eq)
  moreover have "sint e \<le> 1" using assms(2) by (simp add: word_sle_eq sint_widen)
  moreover have "sint b < sint e" using assms(3) by (simp add: word_sless_alt)
  ultimately have "sint b = 0" and "sint e = sint (1 :: int32_t)" by simp_all
  then show ?thesis by (simp add: signed_eq_0_iff signed_word_eqI)
qed

lemma Slice_unfold:
  assumes "data szT t = Inr p" and "dims t = d0 # ds"
  shows "Slice szT t b e =
           (if \<not> 0 \<le>s b then Inl SliceBeginNegative
            else if \<not> widen e \<le>s d0 then Inl SliceEndOutOfBound
            else if \<not> b <s e then Inl SliceBeginNotBelowEnd
            else if d0 = 1 then Inr t
            else Inr \<lparr>holder = holder t, dims = widen (e - b) # ds,
                      offset = offset t + widen b * int64_div (numel t) d0 * szT\<rparr>)"
  using assms(2) data_Inr_check [OF assms(1)]
  by (simp add: Slice_def Let_def Resize_def Tensor_new_def)

lemma mutable_data_offset_moves:
  assumes "offset (fst (snd (mutable_data cuda szT place t h))) \<noteq> offset t"
  shows "snd (snd (mutable_data cuda szT place t h)) = h @ [fst (PlaceholderImpl place (numel t * szT) h)]"
  using assms
  by (cases place; cases "holder t")
     (auto simp add: mutable_data_def Let_def PlaceholderImpl_def split: if_splits)

lemma product_take_drop: "product (take k ds) * product (drop k ds) = product ds"
  using product_append [of "take k ds" "drop k ds"] by simp

lemma mutable_data_returns:
  assumes "0 <s numel t" and "is_cpu_place place \<or> cuda"
  shows "\<exists>q t' h'. mutable_data cuda szT place t h = (Inr q, t', h')"
proof (cases "\<exists>b. holder t = Some b \<and> place_of b = place
                  \<and> numel t * szT + offset t \<le> size_of b")
  case True
  then show ?thesis using assms(1) by (auto simp add: mutable_data_keep)
next
  case False
  then show ?thesis using assms by (simp add: mutable_data_fresh)
qed

lemma CopyFrom_device_to_device_unfold:
  assumes "data szT src = Inr p" and "holder src = Some sb" and "place_of sb = GPUPlace sd"
    and "mutable_data True szT (GPUPlace dd) (Resize this (dims src)) h = (Inr q, t2, h2)"
  shows "CopyFrom True szT src (GPUPlace dd) ctx this h =
           (if \<not> is_gpu_place (GetPlace ctx) then (Inl ContextNotOnGPU, t2, h2)
            else if GPUPlace sd \<noteq> GetPlace ctx then (Inl ContextPlaceMismatch, t2, h2)
            else (Inr (Some (Copy (GPUPlace dd) q (GPUPlace sd) p (numel src * szT)
                               (Some (stream ctx)))), t2, h2))"
  using assms data_Inr_check [OF assms(1)]
  by (simp add: CopyFrom_def Let_def)

lemma CopyFrom_fails_early:
  assumes "\<not> (\<exists>p. data szT src = Inr p) \<or> \<not> 0 <s numel src"
  shows "\<exists>e. fst (CopyFrom cuda szT src dst_place ctx this h) = Inl e"
proof (cases "check_memory_size szT src")
  case (Inl e)
  then show ?thesis by (simp add: CopyFrom_def)
next
  case (Inr u)
  then obtain p where p: "data szT src = Inr p"
    by (auto simp add: data_def check_memory_size_def holder_ptr_at_offset_def
          split: option.splits if_splits)
  with assms have "\<not> 0 <s numel (Resize this (dims src))"
    by (simp add: numel_def Resize_def)
  then have "mutable_data cuda szT dst_place (Resize this (dims src)) h
               = (Inl NumelNotPositive, Resize this (dims src), h)"
    by (rule mutable_data_numel)
  moreover from p obtain b where "holder src = Some b"
    by (auto simp add: data_Inr_iff)
  ultimately show ?thesis
    using Inr p by (simp add: CopyFrom_def Let_def)
qed

lemma word_of_required:
  "product ds * szT + off = (word_of_int (spec_required szT ds + uint off) :: size_t)"
  by (simp add: spec_required_def)

lemma uint_in_range:
  assumes "0 \<le> v" and "v < 2 ^ 64"
  shows "uint (word_of_int v :: size_t) = v"
  using assms by (simp add: uint_word_of_int take_bit_int_eq_self)

lemma uint_required:
  assumes "0 \<le> spec_required szT ds + uint off" and "spec_required szT ds + uint off < 2 ^ 64"
  shows "uint (product ds * szT + off) = spec_required szT ds + uint off"
  unfolding word_of_required using assms by (rule uint_in_range)

lemma required_nonneg: "0 <s product ds \<Longrightarrow> 0 \<le> spec_required szT ds"
  by (simp add: spec_required_def word_sless_alt)

lemma uint_required_alone:
  assumes "0 <s product ds" and "spec_required szT ds < 2 ^ 64"
  shows "uint (product ds * szT) = spec_required szT ds"
  using uint_required [of szT ds 0] required_nonneg [OF assms(1), of szT] assms(2) by simp

lemma fits_in_range:
  assumes "0 \<le> spec_required szT (dims t) + uint (offset t)"
    and "spec_required szT (dims t) + uint (offset t) < 2 ^ 64"
  shows "(\<exists>b. holder t = Some b \<and> place_of b = place
             \<and> numel t * szT + offset t \<le> size_of b)
           \<longleftrightarrow> spec_reuse szT place t"
  by (simp add: spec_reuse_def numel_def word_le_def uint_required [OF assms]
        split: option.split)

lemma mutable_data_reuse_iff:
  assumes "0 <s numel t"
  shows "(\<exists>q. mutable_data cuda szT place t h = (Inr q, t, h)) \<longleftrightarrow>
           (\<exists>b. holder t = Some b \<and> place_of b = place
              \<and> numel t * szT + offset t \<le> size_of b)"
    (is "?kept \<longleftrightarrow> ?fits")
proof
  assume ?fits
  then show ?kept using assms by (auto simp add: mutable_data_keep)
next
  assume r: ?kept
  show ?fits
  proof (rule ccontr)
    assume n: "\<not> ?fits"
    show False
    proof (cases "is_cpu_place place \<or> cuda")
      case True
      from mutable_data_fresh [OF assms n True, of h] r show False by auto
    next
      case False
      then have "is_gpu_place place" and "\<not> cuda" by (cases place; simp)+
      from mutable_data_refused [OF assms n this, of h] r show False by auto
    qed
  qed
qed

lemma mutable_data_second_call:
  assumes "0 <s numel t"
    and "\<not> (\<exists>b. holder t = Some b \<and> place_of b = place
              \<and> numel t * szT + offset t \<le> size_of b)"
    and "is_cpu_place place \<or> cuda"
    and "mutable_data cuda szT place t h = (r, t1, h1)" and "0 <s product ds"
  shows "(product ds * szT \<le> numel t * szT \<longrightarrow>
            mutable_data cuda szT place (Resize t1 ds) h1 = (r, Resize t1 ds, h1))
       \<and> (\<forall>place2. (place2 \<noteq> place \<or> numel t * szT < product ds * szT)
              \<and> (is_cpu_place place2 \<or> cuda) \<longrightarrow>
            (\<exists>nb. mutable_data cuda szT place2 (Resize t1 ds) h1 =
                    (Inr (ptr_of nb), (Resize t1 ds)\<lparr>holder := Some nb, offset := 0\<rparr>, h1 @ [nb])
                  \<and> Some nb \<noteq> holder t1
                  \<and> size_of nb = product ds * szT \<and> place_of nb = place2))"
proof -
  let ?nb = "\<lparr>ptr_of = Pointer (length h) 0, size_of = numel t * szT, place_of = place\<rparr>"
  from mutable_data_fresh [OF assms(1-3), of h] assms(4)
  have r: "r = Inr (Pointer (length h) 0)"
    and t1: "t1 = t\<lparr>holder := Some ?nb, offset := 0\<rparr>"
    and h1: "h1 = h @ [?nb]"
    by simp_all
  have n: "0 <s numel (Resize t1 ds)"
    using assms(5) by (simp add: numel_def Resize_def)
  have "mutable_data cuda szT place (Resize t1 ds) h1 = (r, Resize t1 ds, h1)"
    if "product ds * szT \<le> numel t * szT"
    using that mutable_data_keep [OF n, of ?nb place szT cuda h1]
    by (simp add: t1 r Resize_def numel_def ptr_add_def)
  moreover
  have "\<exists>nb. mutable_data cuda szT place2 (Resize t1 ds) h1 =
               (Inr (ptr_of nb), (Resize t1 ds)\<lparr>holder := Some nb, offset := 0\<rparr>, h1 @ [nb])
             \<and> Some nb \<noteq> holder t1
             \<and> size_of nb = product ds * szT \<and> place_of nb = place2"
    if c: "place2 \<noteq> place \<or> numel t * szT < product ds * szT"
      and p: "is_cpu_place place2 \<or> cuda" for place2
  proof -
    from c
    have "\<not> (\<exists>b. holder (Resize t1 ds) = Some b \<and> place_of b = place2
                \<and> numel (Resize t1 ds) * szT + offset (Resize t1 ds) \<le> size_of b)"
      by (auto simp add: t1 Resize_def numel_def)
    from mutable_data_fresh [OF n this p, of h1] show ?thesis
      by (auto simp add: t1 h1 Resize_def numel_def)
  qed
  ultimately show ?thesis by blast
qed

lemma CopyFrom_no_null_dereference:
  "fst (CopyFrom cuda szT src dst_place ctx this h) \<noteq> Inl NullDereference"
proof (cases "check_memory_size szT src")
  case (Inl e)
  then have "e \<noteq> NullDereference"
    by (auto simp add: check_memory_size_def split: option.splits if_splits)
  with Inl show ?thesis by (simp add: CopyFrom_def)
next
  case (Inr u)
  then obtain b where b: "holder src = Some b"
    by (auto simp add: check_memory_size_def split: option.splits)
  obtain r t2 h2 where m: "mutable_data cuda szT dst_place (Resize this (dims src)) h = (r, t2, h2)"
    by (cases "mutable_data cuda szT dst_place (Resize this (dims src)) h") auto
  with mutable_data_no_null_dereference [of cuda szT dst_place "Resize this (dims src)" h]
  have "r \<noteq> Inl NullDereference" by simp
  with Inr b m show ?thesis
    by (cases r) (auto simp add: CopyFrom_def Let_def data_def holder_ptr_at_offset_def)
qed

section \<open>The claims\<close>

text \<open>
  C1, as the header has it. For a tensor with \<open>numel(shape) > 0\<close> whose byte count
  \<open>numel(shape) * sizeof(T) + offset\<close> is below \<open>2 ^ 64\<close>, \<^verbatim>\<open>mutable_data<T>(place)\<close> returns
  a pointer and leaves the tensor and the heap as they were if and only if the buffer is
  non-null, its Place equals \<open>place\<close> and its size is at least
  \<open>numel(shape) * sizeof(T) + offset\<close>. Otherwise, when \<open>place\<close> is the host or the build
  has \<^verbatim>\<open>PADDLE_WITH_CUDA\<close>, it allocates a new buffer of exactly
  \<open>numel(shape) * sizeof(T)\<close> bytes in \<open>place\<close>, replaces the reference and resets the offset
  to 0; when \<open>place\<close> is a device and the build has no \<^verbatim>\<open>PADDLE_WITH_CUDA\<close>, it fails
  with the unsupported-place error and changes nothing. After a call that allocated, a
  second call for a shape \<open>ds\<close> with \<open>numel > 0\<close> and a requirement below \<open>2 ^ 64\<close>: with the
  same place and a requirement not above that allocation it reuses the buffer and
  returns the same pointer; with another place (the host, or a device in a build with
  \<^verbatim>\<open>PADDLE_WITH_CUDA\<close>) or a larger requirement it allocates a buffer of exactly the new
  requirement, different from the first. All byte counts are integers, \<open>spec_required\<close>
  and \<open>uint\<close>: nothing in the statement wraps. Byte counts of \<open>2 ^ 64\<close> and more are left
  out of the statement.
\<close>

theorem mutable_data_reuse_or_allocate:
  assumes "0 <s numel t" and "spec_required szT (dims t) + uint (offset t) < 2 ^ 64"
  shows "((\<exists>q. mutable_data cuda szT place t h = (Inr q, t, h)) \<longleftrightarrow> spec_reuse szT place t)
       \<and> (\<not> spec_reuse szT place t \<and> (is_cpu_place place \<or> cuda) \<longrightarrow>
            (\<exists>nb. mutable_data cuda szT place t h =
                    (Inr (ptr_of nb), t\<lparr>holder := Some nb, offset := 0\<rparr>, h @ [nb])
                  \<and> ptr_of nb = Pointer (length h) 0
                  \<and> uint (size_of nb) = spec_required szT (dims t) \<and> place_of nb = place))
       \<and> (\<not> spec_reuse szT place t \<and> is_gpu_place place \<and> \<not> cuda \<longrightarrow>
            mutable_data cuda szT place t h = (Inl GPUPlaceNotSupported, t, h))
       \<and> (\<forall>r t1 h1 ds.
            \<not> spec_reuse szT place t \<and> (is_cpu_place place \<or> cuda)
            \<and> mutable_data cuda szT place t h = (r, t1, h1)
            \<and> 0 <s product ds \<and> spec_required szT ds < 2 ^ 64 \<longrightarrow>
              (spec_required szT ds \<le> spec_required szT (dims t) \<longrightarrow>
                 mutable_data cuda szT place (Resize t1 ds) h1 = (r, Resize t1 ds, h1))
            \<and> (\<forall>place2. (place2 \<noteq> place \<or> spec_required szT (dims t) < spec_required szT ds)
                   \<and> (is_cpu_place place2 \<or> cuda) \<longrightarrow>
                 (\<exists>nb. mutable_data cuda szT place2 (Resize t1 ds) h1 =
                         (Inr (ptr_of nb), (Resize t1 ds)\<lparr>holder := Some nb, offset := 0\<rparr>,
                          h1 @ [nb])
                       \<and> Some nb \<noteq> holder t1
                       \<and> uint (size_of nb) = spec_required szT ds \<and> place_of nb = place2)))"
proof -
  from assms(1) have p: "0 <s product (dims t)" by (simp add: numel_def)
  have nn: "0 \<le> spec_required szT (dims t)" by (rule required_nonneg [OF p])
  have "0 \<le> uint (offset t)" by simp
  with nn have lo: "0 \<le> spec_required szT (dims t) + uint (offset t)" by linarith
  from assms(2) have hi: "spec_required szT (dims t) < 2 ^ 64"
    using uint_nonnegative [of "offset t"] by linarith
  have own: "uint (numel t * szT) = spec_required szT (dims t)"
    unfolding numel_def by (rule uint_required_alone [OF p hi])
  note fits = fits_in_range [OF lo assms(2), of place]
  have one: "(\<exists>q. mutable_data cuda szT place t h = (Inr q, t, h)) \<longleftrightarrow> spec_reuse szT place t"
    using mutable_data_reuse_iff [OF assms(1), of cuda szT place h] fits by simp
  have two: "\<exists>nb. mutable_data cuda szT place t h =
               (Inr (ptr_of nb), t\<lparr>holder := Some nb, offset := 0\<rparr>, h @ [nb])
             \<and> ptr_of nb = Pointer (length h) 0
             \<and> uint (size_of nb) = spec_required szT (dims t) \<and> place_of nb = place"
    if "\<not> spec_reuse szT place t" and "is_cpu_place place \<or> cuda"
    using mutable_data_fresh [OF assms(1) _ that(2), of szT h] that(1) fits own by simp
  have three: "mutable_data cuda szT place t h = (Inl GPUPlaceNotSupported, t, h)"
    if "\<not> spec_reuse szT place t" and "is_gpu_place place" and "\<not> cuda"
    using mutable_data_refused [OF assms(1) _ that(2,3), of szT h] that(1) fits by simp
  have four:
    "(spec_required szT ds \<le> spec_required szT (dims t) \<longrightarrow>
        mutable_data cuda szT place (Resize t1 ds) h1 = (r, Resize t1 ds, h1))
     \<and> (\<forall>place2. (place2 \<noteq> place \<or> spec_required szT (dims t) < spec_required szT ds)
            \<and> (is_cpu_place place2 \<or> cuda) \<longrightarrow>
          (\<exists>nb. mutable_data cuda szT place2 (Resize t1 ds) h1 =
                  (Inr (ptr_of nb), (Resize t1 ds)\<lparr>holder := Some nb, offset := 0\<rparr>, h1 @ [nb])
                \<and> Some nb \<noteq> holder t1
                \<and> uint (size_of nb) = spec_required szT ds \<and> place_of nb = place2))"
    if n: "\<not> spec_reuse szT place t" and c: "is_cpu_place place \<or> cuda"
      and m: "mutable_data cuda szT place t h = (r, t1, h1)"
      and d: "0 <s product ds" and b: "spec_required szT ds < 2 ^ 64"
    for r t1 h1 ds
  proof -
    have new: "uint (product ds * szT) = spec_required szT ds"
      by (rule uint_required_alone [OF d b])
    from n fits
    have "\<not> (\<exists>b. holder t = Some b \<and> place_of b = place
               \<and> numel t * szT + offset t \<le> size_of b)"
      by simp
    moreover have "uint w = spec_required szT ds \<longleftrightarrow> w = product ds * szT" for w :: size_t
      using new by (auto simp add: word_uint_eq_iff)
    ultimately show ?thesis
      using mutable_data_second_call [OF assms(1) _ c m d]
      by (simp add: word_le_def word_less_def own new)
  qed
  from one two three four show ?thesis by blast
qed

text \<open>
  The instances: an allocation on the host, a second call that reuses it, a second call
  that needs more and allocates again, and a device place refused in a build without
  \<^verbatim>\<open>PADDLE_WITH_CUDA\<close>.
\<close>

theorem mutable_data_reuse_or_allocate_witness:
  "mutable_data False 4 CPUPlace \<lparr>holder = None, dims = [2, 3], offset = 0\<rparr> []
     = (Inr (Pointer 0 0),
        \<lparr>holder = Some \<lparr>ptr_of = Pointer 0 0, size_of = 24, place_of = CPUPlace\<rparr>,
         dims = [2, 3], offset = 0\<rparr>,
        [\<lparr>ptr_of = Pointer 0 0, size_of = 24, place_of = CPUPlace\<rparr>])
   \<and> mutable_data False 4 CPUPlace
       \<lparr>holder = Some \<lparr>ptr_of = Pointer 0 0, size_of = 24, place_of = CPUPlace\<rparr>,
        dims = [3, 2], offset = 0\<rparr>
       [\<lparr>ptr_of = Pointer 0 0, size_of = 24, place_of = CPUPlace\<rparr>]
     = (Inr (Pointer 0 0),
        \<lparr>holder = Some \<lparr>ptr_of = Pointer 0 0, size_of = 24, place_of = CPUPlace\<rparr>,
         dims = [3, 2], offset = 0\<rparr>,
        [\<lparr>ptr_of = Pointer 0 0, size_of = 24, place_of = CPUPlace\<rparr>])
   \<and> mutable_data False 4 CPUPlace
       \<lparr>holder = Some \<lparr>ptr_of = Pointer 0 0, size_of = 24, place_of = CPUPlace\<rparr>,
        dims = [4, 2], offset = 0\<rparr>
       [\<lparr>ptr_of = Pointer 0 0, size_of = 24, place_of = CPUPlace\<rparr>]
     = (Inr (Pointer 1 0),
        \<lparr>holder = Some \<lparr>ptr_of = Pointer 1 0, size_of = 32, place_of = CPUPlace\<rparr>,
         dims = [4, 2], offset = 0\<rparr>,
        [\<lparr>ptr_of = Pointer 0 0, size_of = 24, place_of = CPUPlace\<rparr>,
         \<lparr>ptr_of = Pointer 1 0, size_of = 32, place_of = CPUPlace\<rparr>])
   \<and> mutable_data False 4 (GPUPlace 0) \<lparr>holder = None, dims = [2, 3], offset = 0\<rparr> []
     = (Inl GPUPlaceNotSupported, \<lparr>holder = None, dims = [2, 3], offset = 0\<rparr>, [])"
proof -
  let ?t = "\<lparr>holder = None, dims = [2, 3], offset = 0\<rparr>"
  let ?b = "\<lparr>ptr_of = Pointer 0 0, size_of = 24 :: size_t, place_of = CPUPlace\<rparr>"
  let ?c = "\<lparr>ptr_of = Pointer 1 0, size_of = 32 :: size_t, place_of = CPUPlace\<rparr>"
  let ?t1 = "\<lparr>holder = Some ?b, dims = [2, 3], offset = 0\<rparr>"
  have n: "0 <s numel ?t" by (simp add: numel_def word_sless_alt)
  have v: "spec_required 4 (dims ?t) + uint (offset ?t) < 2 ^ 64"
    by (simp add: spec_required_def)
  have s: "\<not> spec_reuse 4 CPUPlace ?t" "\<not> spec_reuse 4 (GPUPlace 0) ?t"
    by (simp_all add: spec_reuse_def)
  note th = mutable_data_reuse_or_allocate [OF n v, of False]
  have "\<not> spec_reuse 4 CPUPlace ?t \<and> (is_cpu_place CPUPlace \<or> False)"
    using s(1) by simp
  from th [of CPUPlace "[]", THEN conjunct2, THEN conjunct1, rule_format, OF this]
  obtain nb where "mutable_data False 4 CPUPlace ?t []
        = (Inr (ptr_of nb), ?t\<lparr>holder := Some nb, offset := 0\<rparr>, [] @ [nb])"
    and "ptr_of nb = Pointer (length ([] :: heap)) 0"
    and "uint (size_of nb) = spec_required 4 (dims ?t)" and "place_of nb = CPUPlace"
    by blast
  moreover from this have "nb = ?b"
    by (simp add: spec_required_def word_uint_eq_iff)
  ultimately
  have first: "mutable_data False 4 CPUPlace ?t [] = (Inr (Pointer 0 0), ?t1, [?b])"
    by simp
  have pre: "\<not> spec_reuse 4 CPUPlace ?t \<and> (is_cpu_place CPUPlace \<or> False)
      \<and> mutable_data False 4 CPUPlace ?t [] = (Inr (Pointer 0 0), ?t1, [?b])
      \<and> 0 <s product [3, 2] \<and> spec_required 4 [3, 2] < 2 ^ 64"
    using s(1) first by (simp add: word_sless_alt spec_required_def)
  have le: "spec_required 4 [3, 2] \<le> spec_required 4 (dims ?t)"
    by (simp add: spec_required_def)
  note again = th [of CPUPlace "[]", THEN conjunct2, THEN conjunct2, THEN conjunct2,
      rule_format, OF pre, THEN conjunct1, rule_format, OF le]
  from again
  have "mutable_data False 4 CPUPlace (Resize ?t1 [3, 2]) [?b]
          = (Inr (Pointer 0 0), Resize ?t1 [3, 2], [?b])" .
  then have second:
    "mutable_data False 4 CPUPlace \<lparr>holder = Some ?b, dims = [3, 2], offset = 0\<rparr> [?b]
       = (Inr (Pointer 0 0), \<lparr>holder = Some ?b, dims = [3, 2], offset = 0\<rparr>, [?b])"
    by (simp add: Resize_def)
  have third: "mutable_data False 4 (GPUPlace 0) ?t [] = (Inl GPUPlaceNotSupported, ?t, [])"
    using th [of "GPUPlace 0" "[]"] s(2) by simp
  let ?u = "\<lparr>holder = Some ?b, dims = [4, 2], offset = 0\<rparr>"
  have nu: "0 <s numel ?u" by (simp add: numel_def word_sless_alt)
  have vu: "spec_required 4 (dims ?u) + uint (offset ?u) < 2 ^ 64"
    by (simp add: spec_required_def)
  have "\<not> spec_reuse 4 CPUPlace ?u \<and> (is_cpu_place CPUPlace \<or> False)"
    by (simp add: spec_reuse_def spec_required_def)
  from mutable_data_reuse_or_allocate [OF nu vu, of False CPUPlace "[?b]",
      THEN conjunct2, THEN conjunct1, rule_format, OF this]
  obtain nc where "mutable_data False 4 CPUPlace ?u [?b]
        = (Inr (ptr_of nc), ?u\<lparr>holder := Some nc, offset := 0\<rparr>, [?b] @ [nc])"
    and "ptr_of nc = Pointer (length [?b]) 0"
    and "uint (size_of nc) = spec_required 4 (dims ?u)" and "place_of nc = CPUPlace"
    by blast
  moreover from this have "nc = ?c"
    by (simp add: spec_required_def word_uint_eq_iff)
  ultimately
  have fourth: "mutable_data False 4 CPUPlace ?u [?b]
      = (Inr (Pointer 1 0), \<lparr>holder = Some ?c, dims = [4, 2], offset = 0\<rparr>, [?b, ?c])"
    by simp
  from first second third fourth show ?thesis by simp
qed

text \<open>
  C1 as stated promises an allocation whenever the buffer cannot be reused. In a build
  without \<^verbatim>\<open>PADDLE_WITH_CUDA\<close>, a tensor of shape \<open>[2, 3]\<close> without a buffer, asked for
  device 0: 24 bytes are required, the buffer cannot be reused, and the call throws
  instead of allocating.
\<close>

theorem mutable_data_reuse_or_allocate_counterexample:
  "0 <s numel \<lparr>holder = None, dims = [2, 3], offset = 0\<rparr>
   \<and> spec_required 4 [2, 3] = 24
   \<and> \<not> spec_reuse 4 (GPUPlace 0) \<lparr>holder = None, dims = [2, 3], offset = 0\<rparr>
   \<and> mutable_data False 4 (GPUPlace 0) \<lparr>holder = None, dims = [2, 3], offset = 0\<rparr> []
       = (Inl GPUPlaceNotSupported, \<lparr>holder = None, dims = [2, 3], offset = 0\<rparr>, [])"
  by (simp add: mutable_data_def spec_reuse_def spec_required_def numel_def word_sless_alt)

text \<open>
  C2, as the header has it. The three bounds of \<^verbatim>\<open>Slice\<close> are enforced before the test
  \<^verbatim>\<open>dims_[0] == 1\<close>. For a tensor with leading extent 1 that passes the bounds check of
  \<^verbatim>\<open>data<T>()\<close>, \<^verbatim>\<open>Slice<T>(begin, end)\<close> returns the tensor unchanged exactly when
  \<open>begin = 0\<close> and \<open>end = 1\<close>, the only pair within the bounds; every other pair fails
  with the error of the first bound it breaks.
\<close>

theorem Slice_single_row:
  assumes "data szT t = Inr p" and "dims t = 1 # ds"
  shows "Slice szT t begin_idx end_idx =
           (if \<not> 0 \<le>s begin_idx then Inl SliceBeginNegative
            else if \<not> widen end_idx \<le>s 1 then Inl SliceEndOutOfBound
            else if \<not> begin_idx <s end_idx then Inl SliceBeginNotBelowEnd
            else Inr t)
       \<and> ((\<exists>r. Slice szT t begin_idx end_idx = Inr r) \<longleftrightarrow> begin_idx = 0 \<and> end_idx = 1)
       \<and> Slice szT t 0 1 = Inr t"
proof -
  note u = Slice_unfold [OF assms]
  have one: "Slice szT t 0 1 = Inr t"
    by (simp add: u widen_def word_sless_alt)
  have "begin_idx = 0 \<and> end_idx = 1" if "Slice szT t begin_idx end_idx = Inr r" for r
    using that single_row_bounds [of begin_idx end_idx]
    by (auto simp add: u split: if_splits)
  with one show ?thesis
    by (auto simp add: u)
qed

theorem Slice_single_row_witness:
  "Slice 4 \<lparr>holder = Some \<lparr>ptr_of = Pointer 0 0, size_of = 16, place_of = CPUPlace\<rparr>,
             dims = [1, 3], offset = 4\<rparr> 0 1
     = Inr \<lparr>holder = Some \<lparr>ptr_of = Pointer 0 0, size_of = 16, place_of = CPUPlace\<rparr>,
            dims = [1, 3], offset = 4\<rparr>
   \<and> Slice 4 \<lparr>holder = Some \<lparr>ptr_of = Pointer 0 0, size_of = 16, place_of = CPUPlace\<rparr>,
               dims = [1, 3], offset = 4\<rparr> 0 2 = Inl SliceEndOutOfBound
   \<and> Slice 4 \<lparr>holder = Some \<lparr>ptr_of = Pointer 0 0, size_of = 16, place_of = CPUPlace\<rparr>,
               dims = [1, 3], offset = 4\<rparr> (- 1) 1 = Inl SliceBeginNegative
   \<and> Slice 4 \<lparr>holder = Some \<lparr>ptr_of = Pointer 0 0, size_of = 16, place_of = CPUPlace\<rparr>,
               dims = [1, 3], offset = 4\<rparr> 1 1 = Inl SliceBeginNotBelowEnd"
proof -
  let ?c = "\<lparr>ptr_of = Pointer 0 0, size_of = 16 :: size_t, place_of = CPUPlace\<rparr>"
  let ?t = "\<lparr>holder = Some ?c, dims = [1, 3], offset = 4\<rparr>"
  have d: "data 4 ?t = Inr (Pointer 0 4)"
    by (simp add: data_Inr_iff numel_def ptr_add_def)
  have s: "dims ?t = 1 # [3]" by simp
  note r = Slice_single_row [OF d s]
  have "Slice 4 ?t 0 1 = Inr ?t"
    by (rule r [THEN conjunct2, THEN conjunct2])
  moreover have "Slice 4 ?t 0 2 = Inl SliceEndOutOfBound"
    using r [of 0 2, THEN conjunct1] by (simp add: widen_def word_sle_eq word_sless_alt)
  moreover have "Slice 4 ?t (- 1) 1 = Inl SliceBeginNegative"
    using r [of "- 1" 1, THEN conjunct1] by (simp add: word_sle_eq)
  moreover have "Slice 4 ?t 1 1 = Inl SliceBeginNotBelowEnd"
    using r [of 1 1, THEN conjunct1] by (simp add: widen_def word_sle_eq word_sless_alt)
  ultimately show ?thesis by simp
qed

text \<open>
  C2 as stated has every \<open>begin\<close> and \<open>end\<close> accepted when the leading extent is 1. A
  tensor of shape \<open>[1]\<close> with a buffer of 4 bytes passes the bounds check for a 4-byte
  type, and \<^verbatim>\<open>Slice(5, 7)\<close> on it fails with the end-index error.
\<close>

theorem Slice_single_row_counterexample:
  "dims \<lparr>holder = Some \<lparr>ptr_of = Pointer 0 0, size_of = 4, place_of = CPUPlace\<rparr>,
          dims = [1], offset = 0\<rparr> = [1]
   \<and> data 4 \<lparr>holder = Some \<lparr>ptr_of = Pointer 0 0, size_of = 4, place_of = CPUPlace\<rparr>,
              dims = [1], offset = 0\<rparr> = Inr (Pointer 0 0)
   \<and> Slice 4 \<lparr>holder = Some \<lparr>ptr_of = Pointer 0 0, size_of = 4, place_of = CPUPlace\<rparr>,
               dims = [1], offset = 0\<rparr> 5 7 = Inl SliceEndOutOfBound"
  by (simp add: Slice_def data_def check_memory_size_def holder_ptr_at_offset_def numel_def
        ptr_add_def widen_def word_sle_eq word_sless_alt)

text \<open>
  C3, as the header has it. In a build with \<^verbatim>\<open>PADDLE_WITH_CUDA\<close>, a \<^verbatim>\<open>CopyFrom\<close> from a
  buffer on device \<open>sd\<close> to device \<open>dd\<close> fails unless the context is on device \<open>sd\<close>: a
  context on the host gets the not-a-GPU error, a context on another device the
  place-mismatch error (for a source that passes the bounds check and has
  \<open>numel > 0\<close>; otherwise the call fails earlier). With the context on \<open>sd\<close> the copy is
  issued on the context's stream for every \<open>dd\<close>: the destination's device is not
  compared with the context's. In a build without \<^verbatim>\<open>PADDLE_WITH_CUDA\<close> the call fails
  for every context when the receiver holds no buffer on device \<open>dd\<close>.
\<close>

theorem CopyFrom_device_to_device:
  assumes "holder src = Some sb" and "place_of sb = GPUPlace sd"
  shows "(GetPlace ctx \<noteq> GPUPlace sd \<longrightarrow>
            (\<exists>e. fst (CopyFrom True szT src (GPUPlace dd) ctx this h) = Inl e))
       \<and> (\<forall>p. data szT src = Inr p \<and> 0 <s numel src \<longrightarrow>
              (GetPlace ctx = CPUPlace \<longrightarrow>
                 fst (CopyFrom True szT src (GPUPlace dd) ctx this h) = Inl ContextNotOnGPU)
            \<and> (\<forall>c. GetPlace ctx = GPUPlace c \<and> c \<noteq> sd \<longrightarrow>
                 fst (CopyFrom True szT src (GPUPlace dd) ctx this h)
                   = Inl ContextPlaceMismatch)
            \<and> (GetPlace ctx = GPUPlace sd \<longrightarrow>
                 (\<exists>q. fst (CopyFrom True szT src (GPUPlace dd) ctx this h)
                        = Inr (Some (Copy (GPUPlace dd) q (GPUPlace sd) p (numel src * szT)
                                       (Some (stream ctx)))))))
       \<and> ((\<forall>b. holder this = Some b \<longrightarrow> place_of b \<noteq> GPUPlace dd) \<longrightarrow>
            (\<exists>e. fst (CopyFrom False szT src (GPUPlace dd) ctx this h) = Inl e))"
proof -
  note ok = CopyFrom_device_to_device_unfold [OF _ assms]
  have ret: "\<exists>q t2 h2. mutable_data True szT (GPUPlace dd) (Resize this (dims src)) h
                 = (Inr q, t2, h2)"
    if "0 <s numel src"
    using that mutable_data_returns [of "Resize this (dims src)" "GPUPlace dd" True szT h]
    by (simp add: numel_def Resize_def)
  have first: "\<exists>e. fst (CopyFrom True szT src (GPUPlace dd) ctx this h) = Inl e"
    if mis: "GetPlace ctx \<noteq> GPUPlace sd"
  proof (cases "(\<exists>p. data szT src = Inr p) \<and> 0 <s numel src")
    case False
    then show ?thesis using CopyFrom_fails_early [of szT src True "GPUPlace dd" ctx this h]
      by blast
  next
    case True
    then obtain p q t2 h2 where "data szT src = Inr p"
      and "mutable_data True szT (GPUPlace dd) (Resize this (dims src)) h = (Inr q, t2, h2)"
      using ret by blast
    from ok [OF this] mis show ?thesis by auto
  qed
  have second: "fst (CopyFrom True szT src (GPUPlace dd) ctx this h) = Inl ContextNotOnGPU"
    if "data szT src = Inr p" and "0 <s numel src" and "GetPlace ctx = CPUPlace" for p
    using ok [OF that(1)] ret [OF that(2)] that(3) by auto
  have third: "fst (CopyFrom True szT src (GPUPlace dd) ctx this h) = Inl ContextPlaceMismatch"
    if "data szT src = Inr p" and "0 <s numel src" and "GetPlace ctx = GPUPlace c" and "c \<noteq> sd"
    for p c
    using ok [OF that(1)] ret [OF that(2)] that(3,4) by auto
  have fourth: "\<exists>q. fst (CopyFrom True szT src (GPUPlace dd) ctx this h)
                  = Inr (Some (Copy (GPUPlace dd) q (GPUPlace sd) p (numel src * szT)
                                 (Some (stream ctx))))"
    if "data szT src = Inr p" and "0 <s numel src" and "GetPlace ctx = GPUPlace sd" for p
    using ok [OF that(1)] ret [OF that(2)] that(3) by auto
  have fifth: "\<exists>e. fst (CopyFrom False szT src (GPUPlace dd) ctx this h) = Inl e"
    if none: "\<forall>b. holder this = Some b \<longrightarrow> place_of b \<noteq> GPUPlace dd"
  proof (cases "(\<exists>p. data szT src = Inr p) \<and> 0 <s numel src")
    case False
    then show ?thesis using CopyFrom_fails_early [of szT src False "GPUPlace dd" ctx this h]
      by blast
  next
    case True
    then obtain p where p: "data szT src = Inr p" and n: "0 <s numel src" by blast
    from n have "0 <s numel (Resize this (dims src))"
      by (simp add: numel_def Resize_def)
    moreover from none
    have "\<not> (\<exists>b. holder (Resize this (dims src)) = Some b \<and> place_of b = GPUPlace dd
                 \<and> numel (Resize this (dims src)) * szT + offset (Resize this (dims src))
                     \<le> size_of b)"
      by (auto simp add: Resize_def)
    ultimately
    have "mutable_data False szT (GPUPlace dd) (Resize this (dims src)) h
            = (Inl GPUPlaceNotSupported, Resize this (dims src), h)"
      by (rule mutable_data_refused) simp_all
    then show ?thesis
      using p assms(1) data_Inr_check [OF p] by (simp add: CopyFrom_def Let_def)
  qed
  from first second third fourth fifth show ?thesis by blast
qed

theorem CopyFrom_device_to_device_witness:
  "fst (CopyFrom True 4
          \<lparr>holder = Some \<lparr>ptr_of = Pointer 0 0, size_of = 24, place_of = GPUPlace 0\<rparr>,
           dims = [2, 3], offset = 0\<rparr>
          (GPUPlace 0) \<lparr>GetPlace = GPUPlace 1, stream = 7\<rparr> Tensor_new []) = Inl ContextPlaceMismatch
   \<and> fst (CopyFrom True 4
          \<lparr>holder = Some \<lparr>ptr_of = Pointer 0 0, size_of = 24, place_of = GPUPlace 0\<rparr>,
           dims = [2, 3], offset = 0\<rparr>
          (GPUPlace 0) \<lparr>GetPlace = CPUPlace, stream = 7\<rparr> Tensor_new []) = Inl ContextNotOnGPU
   \<and> (\<exists>q. fst (CopyFrom True 4
          \<lparr>holder = Some \<lparr>ptr_of = Pointer 0 0, size_of = 24, place_of = GPUPlace 0\<rparr>,
           dims = [2, 3], offset = 0\<rparr>
          (GPUPlace 1) \<lparr>GetPlace = GPUPlace 0, stream = 7\<rparr> Tensor_new [])
        = Inr (Some (Copy (GPUPlace 1) q (GPUPlace 0) (Pointer 0 0) 24 (Some 7))))
   \<and> (\<exists>e. fst (CopyFrom False 4
          \<lparr>holder = Some \<lparr>ptr_of = Pointer 0 0, size_of = 24, place_of = GPUPlace 0\<rparr>,
           dims = [2, 3], offset = 0\<rparr>
          (GPUPlace 0) \<lparr>GetPlace = GPUPlace 0, stream = 7\<rparr> Tensor_new []) = Inl e)"
proof -
  let ?g = "\<lparr>ptr_of = Pointer 0 0, size_of = 24 :: size_t, place_of = GPUPlace 0\<rparr>"
  let ?s = "\<lparr>holder = Some ?g, dims = [2, 3], offset = 0\<rparr>"
  let ?c1 = "\<lparr>GetPlace = GPUPlace 1, stream = 7\<rparr>"
  let ?c0 = "\<lparr>GetPlace = GPUPlace 0, stream = 7\<rparr>"
  let ?ch = "\<lparr>GetPlace = CPUPlace, stream = 7\<rparr>"
  have a: "holder ?s = Some ?g" "place_of ?g = GPUPlace 0" by simp_all
  have d: "data 4 ?s = Inr (Pointer 0 0) \<and> 0 <s numel ?s"
    by (simp add: data_Inr_iff numel_def ptr_add_def word_sless_alt)
  have "fst (CopyFrom True 4 ?s (GPUPlace 0) ?c1 Tensor_new []) = Inl ContextPlaceMismatch"
    using CopyFrom_device_to_device [OF a, of ?c1 4 0 Tensor_new "[]"] d by simp
  moreover
  have "fst (CopyFrom True 4 ?s (GPUPlace 0) ?ch Tensor_new []) = Inl ContextNotOnGPU"
    using CopyFrom_device_to_device [OF a, of ?ch 4 0 Tensor_new "[]"] d by simp
  moreover
  have "\<exists>q. fst (CopyFrom True 4 ?s (GPUPlace 1) ?c0 Tensor_new [])
          = Inr (Some (Copy (GPUPlace 1) q (GPUPlace 0) (Pointer 0 0) 24 (Some 7)))"
    using CopyFrom_device_to_device [OF a, of ?c0 4 1 Tensor_new "[]"] d
    by (simp add: numel_def)
  moreover
  have "\<exists>e. fst (CopyFrom False 4 ?s (GPUPlace 0) ?c0 Tensor_new []) = Inl e"
    using CopyFrom_device_to_device [OF a, of ?c0 4 0 Tensor_new "[]"]
    by (simp add: Tensor_new_def)
  ultimately show ?thesis by simp
qed

text \<open>
  C3 as stated has the call fail unless the context's device equals the source's and
  the destination's. Source on device 0, destination device 1, context on device 0: the
  call allocates on device 1 and issues the copy on the context's stream.
\<close>

theorem CopyFrom_device_to_device_counterexample:
  "CopyFrom True 4
     \<lparr>holder = Some \<lparr>ptr_of = Pointer 0 0, size_of = 24, place_of = GPUPlace 0\<rparr>,
      dims = [2, 3], offset = 0\<rparr>
     (GPUPlace 1) \<lparr>GetPlace = GPUPlace 0, stream = 7\<rparr> Tensor_new
     [\<lparr>ptr_of = Pointer 0 0, size_of = 24, place_of = GPUPlace 0\<rparr>]
   = (Inr (Some (Copy (GPUPlace 1) (Pointer 1 0) (GPUPlace 0) (Pointer 0 0) 24 (Some 7))),
      \<lparr>holder = Some \<lparr>ptr_of = Pointer 1 0, size_of = 24, place_of = GPUPlace 1\<rparr>,
       dims = [2, 3], offset = 0\<rparr>,
      [\<lparr>ptr_of = Pointer 0 0, size_of = 24, place_of = GPUPlace 0\<rparr>,
       \<lparr>ptr_of = Pointer 1 0, size_of = 24, place_of = GPUPlace 1\<rparr>])"
  by (simp add: CopyFrom_def check_memory_size_def data_def holder_ptr_at_offset_def
        mutable_data_def PlaceholderImpl_def Resize_def Tensor_new_def numel_def ptr_add_def
        Let_def word_sless_alt)

text \<open>
  C4. For a tensor with leading extent \<open>shape[0] > 1\<close> that passes the bounds check of
  \<^verbatim>\<open>data<T>()\<close>, and \<open>0 \<le> begin\<close>, \<open>end \<le> shape[0]\<close>, \<open>begin < end\<close>,
  \<^verbatim>\<open>Slice<T>(begin, end)\<close> returns a tensor with the buffer reference of the source, the
  shape of the source with the leading extent replaced by \<open>end - begin\<close>, and the offset
  \<open>offset + begin * (numel(shape) / shape[0]) * sizeof(T)\<close>. \<^verbatim>\<open>Slice\<close> takes no heap: nothing
  is copied or allocated. The witness is the shape \<open>[5, 4]\<close> with \<open>begin = 1\<close>, \<open>end = 3\<close>.
\<close>

theorem Slice_view:
  assumes "data szT t = Inr p" and "dims t = d0 # ds" and "1 <s d0"
    and "0 \<le>s begin_idx" and "widen end_idx \<le>s d0" and "begin_idx <s end_idx"
  shows "Slice szT t begin_idx end_idx =
           Inr \<lparr>holder = holder t, dims = widen (end_idx - begin_idx) # ds,
                offset = offset t + widen begin_idx * int64_div (numel t) d0 * szT\<rparr>
       \<and> sint (widen (end_idx - begin_idx)) = sint end_idx - sint begin_idx"
proof -
  from assms(3) have "d0 \<noteq> 1" by auto
  with assms(4-6) show ?thesis
    by (simp add: Slice_unfold [OF assms(1,2)] sint_widen sint_diff_in_range)
qed

theorem Slice_view_witness:
  "Slice 4 \<lparr>holder = Some \<lparr>ptr_of = Pointer 0 0, size_of = 100, place_of = CPUPlace\<rparr>,
             dims = [5, 4], offset = 8\<rparr> 1 3
     = Inr \<lparr>holder = Some \<lparr>ptr_of = Pointer 0 0, size_of = 100, place_of = CPUPlace\<rparr>,
            dims = [2, 4], offset = 8 + 1 * 4 * 4\<rparr>"
proof -
  let ?c = "\<lparr>ptr_of = Pointer 0 0, size_of = 100 :: size_t, place_of = CPUPlace\<rparr>"
  let ?t = "\<lparr>holder = Some ?c, dims = [5, 4], offset = 8\<rparr>"
  have d: "data 4 ?t = Inr (Pointer 0 8)"
    by (simp add: data_Inr_iff numel_def ptr_add_def)
  have s: "dims ?t = 5 # [4]" by simp
  have b: "1 <s (5 :: int64_t)" "0 \<le>s (1 :: int32_t)" "widen 3 \<le>s (5 :: int64_t)"
    "(1 :: int32_t) <s 3"
    by (simp_all add: widen_def word_sle_eq word_sless_alt)
  from Slice_view [OF d s b] show ?thesis
    by (simp add: widen_def numel_def int64_div_def signed_divide_int_def)
qed




text \<open>
  C6. \<^verbatim>\<open>Resize(dims)\<close> replaces the shape and leaves the buffer reference and the offset
  as they were. It has no error result and takes no heap: it validates nothing and
  allocates nothing. What it returns is the receiver.
\<close>

theorem Resize_frame:
  "holder (Resize t ds) = holder t \<and> offset (Resize t ds) = offset t \<and> dims (Resize t ds) = ds"
  by (simp add: Resize_def)

text \<open>
  C7. When \<open>numel(shape) \<le> 0\<close>, and so whenever one extent is zero, \<^verbatim>\<open>mutable_data<T>(place)\<close>
  fails with the precondition error in either build, for every place: no pointer is
  returned, the tensor is as it was and the heap is as it was.
\<close>

theorem mutable_data_numel_not_positive:
  assumes "numel t \<le>s 0 \<or> 0 \<in> set (dims t)"
  shows "mutable_data cuda szT place t h = (Inl NumelNotPositive, t, h)"
proof -
  from assms have "numel t \<le>s 0"
    by (auto simp add: numel_def product_zero)
  then have "\<not> 0 <s numel t" by auto
  then show ?thesis by (rule mutable_data_numel)
qed

theorem mutable_data_numel_not_positive_witness:
  "mutable_data True 4 CPUPlace \<lparr>holder = None, dims = [2, 0, 3], offset = 0\<rparr> []
     = (Inl NumelNotPositive, \<lparr>holder = None, dims = [2, 0, 3], offset = 0\<rparr>, [])
   \<and> mutable_data False 4 (GPUPlace 1) \<lparr>holder = None, dims = [- 1, 3], offset = 0\<rparr> []
     = (Inl NumelNotPositive, \<lparr>holder = None, dims = [- 1, 3], offset = 0\<rparr>, [])"
proof -
  let ?z = "\<lparr>holder = None, dims = [2, 0, 3], offset = 0\<rparr>"
  let ?m = "\<lparr>holder = None, dims = [- 1, 3], offset = 0\<rparr>"
  have "numel ?z \<le>s 0 \<or> 0 \<in> set (dims ?z)" by simp
  then have z: "mutable_data True 4 CPUPlace ?z [] = (Inl NumelNotPositive, ?z, [])"
    by (rule mutable_data_numel_not_positive)
  have "numel ?m \<le>s 0 \<or> 0 \<in> set (dims ?m)" by (simp add: numel_def word_sle_eq)
  then have "mutable_data False 4 (GPUPlace 1) ?m [] = (Inl NumelNotPositive, ?m, [])"
    by (rule mutable_data_numel_not_positive)
  with z show ?thesis by simp
qed

text \<open>
  C8. For a source that passes the bounds check of \<^verbatim>\<open>data<T>()\<close> and a split point
  \<open>0 \<le> num_col_dims \<le> rank\<close>, \<^verbatim>\<open>ReshapeToMatrix<T>(src, num_col_dims)\<close> returns a tensor
  with the buffer reference and the offset of \<open>src\<close> and a shape of exactly two extents,
  the product of the leading \<open>num_col_dims\<close> extents and the product of the remaining
  ones; \<open>numel\<close> is unchanged. The witness is the shape \<open>[2, 3, 4]\<close> split at 1 and at 2.
\<close>

theorem ReshapeToMatrix_two_extents:
  assumes "data szT src = Inr p" and "0 \<le>s num_col_dims"
    and "nat (sint num_col_dims) \<le> length (dims src)"
  shows "\<exists>res. ReshapeToMatrix szT src num_col_dims = Inr res
           \<and> holder res = holder src \<and> offset res = offset src
           \<and> dims res = [product (take (nat (sint num_col_dims)) (dims src)),
                          product (drop (nat (sint num_col_dims)) (dims src))]
           \<and> length (dims res) = 2
           \<and> numel res = numel src"
  using data_Inr_check [OF assms(1)]
  by (simp add: ReshapeToMatrix_def ShareDataWith_def Resize_def flatten_to_2d_def numel_def
        product_take_drop)

theorem ReshapeToMatrix_two_extents_witness:
  "ReshapeToMatrix 4 \<lparr>holder = Some \<lparr>ptr_of = Pointer 0 0, size_of = 100, place_of = CPUPlace\<rparr>,
                       dims = [2, 3, 4], offset = 4\<rparr> 1
     = Inr \<lparr>holder = Some \<lparr>ptr_of = Pointer 0 0, size_of = 100, place_of = CPUPlace\<rparr>,
            dims = [2, 12], offset = 4\<rparr>
   \<and> ReshapeToMatrix 4 \<lparr>holder = Some \<lparr>ptr_of = Pointer 0 0, size_of = 100, place_of = CPUPlace\<rparr>,
                         dims = [2, 3, 4], offset = 4\<rparr> 2
     = Inr \<lparr>holder = Some \<lparr>ptr_of = Pointer 0 0, size_of = 100, place_of = CPUPlace\<rparr>,
            dims = [6, 4], offset = 4\<rparr>
   \<and> numel \<lparr>holder = Some \<lparr>ptr_of = Pointer 0 0, size_of = 100, place_of = CPUPlace\<rparr>,
            dims = [2, 12], offset = 4\<rparr> = 24
   \<and> numel \<lparr>holder = Some \<lparr>ptr_of = Pointer 0 0, size_of = 100, place_of = CPUPlace\<rparr>,
            dims = [6, 4], offset = 4\<rparr> = 24"
proof -
  let ?c = "\<lparr>ptr_of = Pointer 0 0, size_of = 100 :: size_t, place_of = CPUPlace\<rparr>"
  let ?t = "\<lparr>holder = Some ?c, dims = [2, 3, 4], offset = 4\<rparr>"
  have d: "data 4 ?t = Inr (Pointer 0 4)"
    by (simp add: data_Inr_iff numel_def ptr_add_def)
  have k1: "0 \<le>s (1 :: int32_t)" "nat (sint (1 :: int32_t)) \<le> length (dims ?t)"
    by (simp_all add: word_sle_eq)
  have k2: "0 \<le>s (2 :: int32_t)" "nat (sint (2 :: int32_t)) \<le> length (dims ?t)"
    by (simp_all add: word_sle_eq)
  have t1: "take (nat (sint (1 :: int32_t))) [2, 3, 4 :: int64_t] = [2]"
    and d1: "drop (nat (sint (1 :: int32_t))) [2, 3, 4 :: int64_t] = [3, 4]"
    and t2: "take (nat (sint (2 :: int32_t))) [2, 3, 4 :: int64_t] = [2, 3]"
    and d2: "drop (nat (sint (2 :: int32_t))) [2, 3, 4 :: int64_t] = [4]"
    by (simp_all add: numeral_2_eq_2)
  from ReshapeToMatrix_two_extents [OF d k1]
  have "ReshapeToMatrix 4 ?t 1 = Inr \<lparr>holder = Some ?c, dims = [2, 12], offset = 4\<rparr>"
    by (auto simp add: t1 d1)
  moreover from ReshapeToMatrix_two_extents [OF d k2]
  have "ReshapeToMatrix 4 ?t 2 = Inr \<lparr>holder = Some ?c, dims = [6, 4], offset = 4\<rparr>"
    by (auto simp add: t2 d2)
  ultimately show ?thesis by (simp add: numel_def)
qed

text \<open>
  C9. When \<open>src\<close> passes the bounds check of \<^verbatim>\<open>data<T>()\<close>, \<^verbatim>\<open>ShareDataWith<T>(src)\<close> leaves
  the receiver with the buffer reference, the shape and the offset of \<open>src\<close>, equal to
  \<open>src\<close> as a whole, and returns it. When \<open>src\<close> fails the check, the call fails with the
  error of \<^verbatim>\<open>data<T>()\<close> and the receiver is as it was.
\<close>

theorem ShareDataWith_full_copy:
  "(\<forall>p. data szT src = Inr p \<longrightarrow>
       (\<exists>this'. ShareDataWith szT this src = (Inr (), this')
          \<and> holder this' = holder src \<and> dims this' = dims src \<and> offset this' = offset src
          \<and> this' = src))
   \<and> (\<forall>e. data szT src = Inl e \<longrightarrow> ShareDataWith szT this src = (Inl e, this))"
  by (auto simp add: ShareDataWith_def dest: data_Inr_check data_Inl_check)

theorem ShareDataWith_full_copy_witness:
  "ShareDataWith 4 Tensor_new
     \<lparr>holder = Some \<lparr>ptr_of = Pointer 0 0, size_of = 32, place_of = CPUPlace\<rparr>,
      dims = [2, 3], offset = 8\<rparr>
     = (Inr (), \<lparr>holder = Some \<lparr>ptr_of = Pointer 0 0, size_of = 32, place_of = CPUPlace\<rparr>,
                 dims = [2, 3], offset = 8\<rparr>)
   \<and> ShareDataWith 4 Tensor_new
       \<lparr>holder = Some \<lparr>ptr_of = Pointer 0 0, size_of = 32, place_of = CPUPlace\<rparr>,
        dims = [2, 3], offset = 12\<rparr>
     = (Inl DimsOutOfBound, Tensor_new)
   \<and> ShareDataWith 4 Tensor_new \<lparr>holder = None, dims = [2, 3], offset = 0\<rparr>
     = (Inl HoldsNoMemory, Tensor_new)"
proof -
  let ?c = "\<lparr>ptr_of = Pointer 0 0, size_of = 32 :: size_t, place_of = CPUPlace\<rparr>"
  let ?t = "\<lparr>holder = Some ?c, dims = [2, 3], offset = 8\<rparr>"
  let ?s = "\<lparr>holder = Some ?c, dims = [2, 3], offset = 12\<rparr>"
  let ?n = "\<lparr>holder = None, dims = [2, 3], offset = 0\<rparr>"
  have "data 4 ?t = Inr (Pointer 0 8)"
    by (simp add: data_Inr_iff numel_def ptr_add_def)
  then have "ShareDataWith 4 Tensor_new ?t = (Inr (), ?t)"
    using ShareDataWith_full_copy [of 4 ?t Tensor_new] by auto
  moreover have "data 4 ?s = Inl DimsOutOfBound"
    by (simp add: data_def check_memory_size_def numel_def)
  then have "ShareDataWith 4 Tensor_new ?s = (Inl DimsOutOfBound, Tensor_new)"
    using ShareDataWith_full_copy [of 4 ?s Tensor_new] by auto
  moreover have "data 4 ?n = Inl HoldsNoMemory"
    by (simp add: data_def check_memory_size_def)
  then have "ShareDataWith 4 Tensor_new ?n = (Inl HoldsNoMemory, Tensor_new)"
    using ShareDataWith_full_copy [of 4 ?n Tensor_new] by auto
  ultimately show ?thesis by simp
qed

text \<open>
  C10. On the reuse path of \<^verbatim>\<open>mutable_data<T>(place)\<close> (buffer not null, same place, size
  sufficient) the tensor, and with it the offset and the buffer reference, is as it was,
  nothing is allocated, and the pointer returned is \<open>buffer.data + offset\<close>. A call that
  changes the offset is a call that allocated, and the offset it leaves is 0.
\<close>

theorem mutable_data_reuse_frame:
  "(\<forall>b. 0 <s numel t \<and> holder t = Some b \<and> place_of b = place
        \<and> numel t * szT + offset t \<le> size_of b \<longrightarrow>
        mutable_data cuda szT place t h = (Inr (ptr_add (ptr_of b) (offset t)), t, h))
   \<and> (offset (fst (snd (mutable_data cuda szT place t h))) \<noteq> offset t \<longrightarrow>
        length (snd (snd (mutable_data cuda szT place t h))) = Suc (length h)
        \<and> offset (fst (snd (mutable_data cuda szT place t h))) = 0)"
proof -
  have "offset (fst (snd (mutable_data cuda szT place t h))) = 0"
    if "offset (fst (snd (mutable_data cuda szT place t h))) \<noteq> offset t"
    using that
    by (cases place; cases "holder t")
       (auto simp add: mutable_data_def Let_def PlaceholderImpl_def split: if_splits)
  then show ?thesis
    by (auto simp add: mutable_data_keep dest: mutable_data_offset_moves)
qed

theorem mutable_data_reuse_frame_witness:
  "mutable_data False 4 CPUPlace
     \<lparr>holder = Some \<lparr>ptr_of = Pointer 0 0, size_of = 32, place_of = CPUPlace\<rparr>,
      dims = [2, 3], offset = 8\<rparr>
     [\<lparr>ptr_of = Pointer 0 0, size_of = 32, place_of = CPUPlace\<rparr>]
   = (Inr (Pointer 0 8),
      \<lparr>holder = Some \<lparr>ptr_of = Pointer 0 0, size_of = 32, place_of = CPUPlace\<rparr>,
       dims = [2, 3], offset = 8\<rparr>,
      [\<lparr>ptr_of = Pointer 0 0, size_of = 32, place_of = CPUPlace\<rparr>])
   \<and> length (snd (snd (mutable_data False 4 CPUPlace
       \<lparr>holder = Some \<lparr>ptr_of = Pointer 0 0, size_of = 32, place_of = CPUPlace\<rparr>,
        dims = [2, 3], offset = 12\<rparr>
       [\<lparr>ptr_of = Pointer 0 0, size_of = 32, place_of = CPUPlace\<rparr>]))) = 2"
proof -
  let ?c = "\<lparr>ptr_of = Pointer 0 0, size_of = 32 :: size_t, place_of = CPUPlace\<rparr>"
  let ?t = "\<lparr>holder = Some ?c, dims = [2, 3], offset = 8\<rparr>"
  let ?s = "\<lparr>holder = Some ?c, dims = [2, 3], offset = 12\<rparr>"
  have "0 <s numel ?t \<and> holder ?t = Some ?c \<and> place_of ?c = CPUPlace
          \<and> numel ?t * 4 + offset ?t \<le> size_of ?c"
    by (simp add: numel_def word_sless_alt)
  then have "mutable_data False 4 CPUPlace ?t [?c] = (Inr (Pointer 0 8), ?t, [?c])"
    using mutable_data_reuse_frame [of ?t CPUPlace 4 False "[?c]"]
    by (auto simp add: ptr_add_def)
  moreover have "offset (fst (snd (mutable_data False 4 CPUPlace ?s [?c]))) \<noteq> offset ?s"
    by (simp add: mutable_data_def numel_def PlaceholderImpl_def Let_def word_sless_alt)
  then have "length (snd (snd (mutable_data False 4 CPUPlace ?s [?c]))) = 2"
    using mutable_data_reuse_frame [of ?s CPUPlace 4 False "[?c]"] by simp
  ultimately show ?thesis by simp
qed

end
